theory Spec2Isabelle
  imports Main
begin

section \<open>TestFlightNotifier: a shallow embedding of \<^verbatim>\<open>src/__init__.py\<close>\<close>

text \<open>
  The cog polls TestFlight join pages, compares the fetched status with the one kept in
  an SQLite table and posts a message when they differ. Everything outside the file
  (the HTTP session, the parsed page, the Discord channel) is an explicit parameter of
  the model; every exception the Python can raise is a value of type \<open>error\<close>.
\<close>

subsection \<open>Exceptions\<close>

datatype error =
    AssertionError       \<comment> \<open>\<^verbatim>\<open>assert self.session is not None\<close>\<close>
  | ClientError          \<comment> \<open>aiohttp: the request could not be carried out\<close>
  | AttributeError       \<comment> \<open>\<^verbatim>\<open>None.find\<close>, \<^verbatim>\<open>None.text\<close>\<close>
  | TypeError            \<comment> \<open>\<^verbatim>\<open>None["style"]\<close>\<close>
  | KeyError             \<comment> \<open>a tag without the attribute asked for\<close>
  | IndexError           \<comment> \<open>a list index out of range\<close>
  | OperationalError     \<comment> \<open>sqlite3: no such table\<close>
  | HTTPException        \<comment> \<open>discord: a request of the bot failed\<close>

definition ebind :: "error + 'a \<Rightarrow> ('a \<Rightarrow> error + 'b) \<Rightarrow> error + 'b" where
  "ebind r f = (case r of Inl e \<Rightarrow> Inl e | Inr v \<Rightarrow> f v)"

subsection \<open>The methods of \<^verbatim>\<open>str\<close> the cog calls\<close>

text \<open>
  A \<open>string\<close> is a list of 8-bit characters, so the model follows Python on ASCII text
  (\<open>lower\<close> leaves every other character alone). No call of the source passes an empty
  separator, for which Python raises \<^verbatim>\<open>ValueError\<close>.
\<close>

definition startswith :: "string \<Rightarrow> string \<Rightarrow> bool" where
  "startswith s p = (take (length p) s = p)"

definition endswith :: "string \<Rightarrow> string \<Rightarrow> bool" where
  "endswith s p = (length p \<le> length s \<and> drop (length s - length p) s = p)"

definition removeprefix :: "string \<Rightarrow> string \<Rightarrow> string" where
  "removeprefix s p = (if startswith s p then drop (length p) s else s)"

definition removesuffix :: "string \<Rightarrow> string \<Rightarrow> string" where
  "removesuffix s p =
     (if p \<noteq> [] \<and> endswith s p then take (length s - length p) s else s)"

text \<open>\<open>partition_at s sep\<close>: the text before and after the first \<open>sep\<close> in \<open>s\<close>, if any.\<close>

fun partition_at :: "string \<Rightarrow> string \<Rightarrow> (string \<times> string) option" where
  "partition_at [] sep = (if sep = [] then Some ([], []) else None)"
| "partition_at (c # cs) sep =
     (if startswith (c # cs) sep then Some ([], drop (length sep) (c # cs))
      else (case partition_at cs sep of
              None \<Rightarrow> None
            | Some (b, a) \<Rightarrow> Some (c # b, a)))"

text \<open>\<^verbatim>\<open>s.split(sep, maxsplit)\<close> for \<open>maxsplit \<ge> 0\<close>: at most \<open>maxsplit\<close> cuts, from the left.\<close>

fun str_split :: "string \<Rightarrow> string \<Rightarrow> nat \<Rightarrow> string list" where
  "str_split s sep 0 = [s]"
| "str_split s sep (Suc n) =
     (case partition_at s sep of
        None \<Rightarrow> [s]
      | Some (b, a) \<Rightarrow> b # str_split a sep n)"

text \<open>
  \<^verbatim>\<open>s.split(sep)\<close> cuts at every separator; a string of \<open>n\<close> characters holds at most
  \<open>n\<close> of them.
\<close>

definition str_split_all :: "string \<Rightarrow> string \<Rightarrow> string list" where
  "str_split_all s sep = str_split s sep (length s)"

text \<open>\<^verbatim>\<open>sub in s\<close>.\<close>

fun contains :: "string \<Rightarrow> string \<Rightarrow> bool" where
  "contains [] sub = (sub = [])"
| "contains (c # cs) sub = (startswith (c # cs) sub \<or> contains cs sub)"

definition lower_char :: "char \<Rightarrow> char" where
  "lower_char c =
     (if (65::nat) \<le> of_char c \<and> of_char c \<le> (90::nat)
      then char_of (of_char c + (32::nat)) else c)"

definition lower :: "string \<Rightarrow> string" where
  "lower s = map lower_char s"

text \<open>\<^verbatim>\<open>xs[i]\<close> for \<open>i \<ge> 0\<close>.\<close>

definition item :: "'a list \<Rightarrow> nat \<Rightarrow> error + 'a" where
  "item xs i = (if i < length xs then Inr (xs ! i) else Inl IndexError)"

subsection \<open>The parsed page\<close>

text \<open>
  \<^verbatim>\<open>BeautifulSoup(text, "html.parser")\<close> is a tree of tags and strings. The parser
  itself is a library and is not modelled: a response carries the tree. A tag has a
  name, its attributes (the first pair of a key is the dictionary's entry) and its
  children.
\<close>

datatype node =
    Tag (tag_name: string) (tag_attrs: "(string \<times> string) list") (contents: "node list")
  | NavigableString string

text \<open>What \<^verbatim>\<open>find\<close> is asked for besides the tag's name.\<close>

datatype attr_filter =
    AnyAttrs
  | IdIs string              \<comment> \<open>\<^verbatim>\<open>id="status"\<close>\<close>
  | ClassIn "string list"    \<comment> \<open>\<^verbatim>\<open>class_=["app-icon", "ios"]\<close>\<close>

definition is_space :: "char \<Rightarrow> bool" where
  "is_space c = (c \<in> set [CHR '' '', CHR 0x09, CHR 0x0A, CHR 0x0B, CHR 0x0C, CHR 0x0D])"

text \<open>The values of a \<^verbatim>\<open>class\<close> attribute: its maximal runs without whitespace.\<close>

fun class_values :: "string \<Rightarrow> string \<Rightarrow> string list" where
  "class_values acc [] = (if acc = [] then [] else [acc])"
| "class_values acc (c # cs) =
     (if is_space c then (if acc = [] then [] else [acc]) @ class_values [] cs
      else class_values (acc @ [c]) cs)"

fun join_space :: "string list \<Rightarrow> string" where
  "join_space [] = []"
| "join_space [x] = x"
| "join_space (x # y # ys) = x @ '' '' @ join_space (y # ys)"

text \<open>
  A list given for \<^verbatim>\<open>class_\<close> matches a tag when one of the tag's classes, or all
  of them joined by spaces, is in the list.
\<close>

definition attrs_match :: "attr_filter \<Rightarrow> (string \<times> string) list \<Rightarrow> bool" where
  "attrs_match f attrs =
     (case f of
        AnyAttrs \<Rightarrow> True
      | IdIs v \<Rightarrow> map_of attrs ''id'' = Some v
      | ClassIn wanted \<Rightarrow>
          (case map_of attrs ''class'' of
             None \<Rightarrow> False
           | Some cls \<Rightarrow>
               list_ex (\<lambda>c. c \<in> set wanted) (class_values [] cls)
               \<or> join_space (class_values [] cls) \<in> set wanted))"

text \<open>The first tag among the descendants, in document order, that matches.\<close>

fun find_in :: "string \<Rightarrow> attr_filter \<Rightarrow> node list \<Rightarrow> node option" where
  "find_in nm f [] = None"
| "find_in nm f (NavigableString t # ns) = find_in nm f ns"
| "find_in nm f (Tag n attrs cs # ns) =
     (if n = nm \<and> attrs_match f attrs then Some (Tag n attrs cs)
      else (case find_in nm f cs of
              Some t \<Rightarrow> Some t
            | None \<Rightarrow> find_in nm f ns))"

text \<open>\<^verbatim>\<open>soup.find(name, ...)\<close> on the document, given by its top-level nodes.\<close>

definition soup_find :: "node list \<Rightarrow> string \<Rightarrow> attr_filter \<Rightarrow> node option" where
  "soup_find page nm f = find_in nm f page"

text \<open>
  \<^verbatim>\<open>x.find(name, ...)\<close>, where \<open>x\<close> is the result of an earlier \<^verbatim>\<open>find\<close>: a tag or
  \<^verbatim>\<open>None\<close> (\<open>find_in\<close> never yields a string, so that case is never reached).
\<close>

definition find_tag :: "node option \<Rightarrow> string \<Rightarrow> attr_filter \<Rightarrow> error + node option" where
  "find_tag x nm f =
     (case x of
        None \<Rightarrow> Inl AttributeError
      | Some (NavigableString t) \<Rightarrow> Inr None
      | Some (Tag n attrs cs) \<Rightarrow> Inr (find_in nm f cs))"

fun strings_of :: "node list \<Rightarrow> string" where
  "strings_of [] = []"
| "strings_of (NavigableString t # ns) = t @ strings_of ns"
| "strings_of (Tag n attrs cs # ns) = strings_of cs @ strings_of ns"

text \<open>\<^verbatim>\<open>x.text\<close>: all the strings below \<open>x\<close>, concatenated.\<close>

definition get_text :: "node option \<Rightarrow> error + string" where
  "get_text x =
     (case x of
        None \<Rightarrow> Inl AttributeError
      | Some (NavigableString t) \<Rightarrow> Inr t
      | Some (Tag n attrs cs) \<Rightarrow> Inr (strings_of cs))"

text \<open>\<^verbatim>\<open>x[key]\<close>.\<close>

definition getitem :: "node option \<Rightarrow> string \<Rightarrow> error + string" where
  "getitem x key =
     (case x of
        None \<Rightarrow> Inl TypeError
      | Some (NavigableString t) \<Rightarrow> Inl TypeError
      | Some (Tag n attrs cs) \<Rightarrow>
          (case map_of attrs key of None \<Rightarrow> Inl KeyError | Some v \<Rightarrow> Inr v))"

subsection \<open>Data\<close>

text \<open>The dataclass of the source; its field \<^verbatim>\<open>id\<close> is \<open>id'\<close> here.\<close>

record TestFlightApp =
  is_full :: bool
  id' :: string
  name :: string
  icon_url :: string

text \<open>What \<^verbatim>\<open>session.get\<close> yields: the status and the parsed body.\<close>

record response =
  status :: int
  soup :: "node list"

datatype colour = Red | Green

record embed =
  title :: string
  url :: string
  description :: string
  color :: colour
  thumbnail :: string

record message =
  content :: "string option"
  embed :: "embed option"

text \<open>
  The world around the cog. \<open>session\<close> is \<open>None\<close> until the HTTP session exists; a
  request raises or yields a response. A channel is named by its id: \<open>get_channel\<close>
  reads the bot's cache, \<open>fetch_channel\<close> asks Discord and may raise, and
  \<open>channel_send c m\<close> is the exception that sending \<open>m\<close> to \<open>c\<close> raises, if any.
\<close>

record env =
  session :: "(string \<Rightarrow> error + response) option"
  get_channel :: "int \<Rightarrow> int option"
  fetch_channel :: "int \<Rightarrow> error + int option"
  channel_send :: "int \<Rightarrow> message \<Rightarrow> error option"

text \<open>
  The database file: \<open>None\<close> when it has no table \<^verbatim>\<open>state\<close>, else the table's rows,
  \<^verbatim>\<open>app_id\<close> (the primary key) to \<^verbatim>\<open>is_full\<close>.
\<close>

type_synonym connection = "(string \<rightharpoonup> bool) option"

record settings =
  watched_apps :: "string list"
  send_errors :: bool
  notification_channel_id :: int
  filled_message :: string
  unfilled_message :: string

datatype level = DEBUG | ERROR

text \<open>
  The cog, and with it what it has done so far: \<open>sent\<close> holds every message delivered
  (with its channel), \<open>logger\<close> every line logged.
\<close>

record cog =
  db_connection :: connection
  fresh_start :: bool
  settings :: settings
  sent :: "(int \<times> message) list"
  logger :: "(level \<times> string) list"

subsection \<open>\<^verbatim>\<open>fetch_app_info\<close>\<close>

text \<open>Lines 123 to 137: what the page says about the app.\<close>

definition parse_app_info :: "node list \<Rightarrow> string \<Rightarrow> error + TestFlightApp" where
  "parse_app_info page app_id =
     ebind (find_tag (soup_find page ''div'' (IdIs ''status'')) ''span'' AnyAttrs) (\<lambda>status_text.
     ebind (get_text status_text) (\<lambda>status_string.
     let full = contains (lower status_string) ''is full'' in
     ebind (find_tag (soup_find page ''div'' (IdIs ''status'')) ''div''
              (ClassIn [''app-icon'', ''ios''])) (\<lambda>icon_element.
     ebind (getitem icon_element ''style'') (\<lambda>style.
     ebind (item (str_split style ''url('' 1) 1) (\<lambda>after_url.
     ebind (item (str_split_all after_url '')'') 0) (\<lambda>the_icon_url.
     ebind (find_tag (soup_find page ''head'' AnyAttrs) ''title'' AnyAttrs) (\<lambda>title_tag.
     ebind (get_text title_tag) (\<lambda>page_title.
     let the_name =
           removesuffix (removeprefix page_title ''Join the '') '' - TestFlight - Apple''
     in Inr \<lparr>is_full = full, id' = app_id, name = the_name,
              icon_url = the_icon_url\<rparr>))))))))"

text \<open>Lines 113 to 121; \<open>Inr None\<close> is the \<^verbatim>\<open>None\<close> the method returns.\<close>

definition fetch_app_info :: "env \<Rightarrow> string \<Rightarrow> error + TestFlightApp option" where
  "fetch_app_info env app_id =
     (case session env of
        None \<Rightarrow> Inl AssertionError
      | Some get \<Rightarrow>
          (case get (''https://testflight.apple.com/join/'' @ app_id) of
             Inl e \<Rightarrow> Inl e
           | Inr resp \<Rightarrow>
               if status resp \<noteq> 200 then Inr None
               else (case parse_app_info (soup resp) app_id of
                       Inl e \<Rightarrow> Inl e
                     | Inr info \<Rightarrow> Inr (Some info))))"

text \<open>
  The elements and attributes \<open>parse_app_info\<close> reads: the status \<^verbatim>\<open>div\<close> with a
  \<^verbatim>\<open>span\<close> and with an icon \<^verbatim>\<open>div\<close> whose \<^verbatim>\<open>style\<close> holds \<^verbatim>\<open>url(\<close>, and a
  \<^verbatim>\<open>head\<close> with a \<^verbatim>\<open>title\<close>. This predicate is not in the source; the properties
  below use it to say which pages lack one of them.
\<close>

definition expected_elements :: "node list \<Rightarrow> bool" where
  "expected_elements page =
     ((case soup_find page ''div'' (IdIs ''status'') of
         None \<Rightarrow> False
       | Some status_div \<Rightarrow>
           (case find_tag (Some status_div) ''span'' AnyAttrs of
              Inr (Some status_text) \<Rightarrow> True
            | _ \<Rightarrow> False)
           \<and> (case find_tag (Some status_div) ''div'' (ClassIn [''app-icon'', ''ios'']) of
                Inr (Some icon_element) \<Rightarrow>
                  (case getitem (Some icon_element) ''style'' of
                     Inr style \<Rightarrow> contains style ''url(''
                   | Inl e \<Rightarrow> False)
              | _ \<Rightarrow> False))
      \<and> (case soup_find page ''head'' AnyAttrs of
            None \<Rightarrow> False
          | Some head \<Rightarrow>
              (case find_tag (Some head) ''title'' AnyAttrs of
                 Inr (Some title_tag) \<Rightarrow> True
               | _ \<Rightarrow> False)))"

subsection \<open>The table\<close>

text \<open>
  \<^verbatim>\<open>create_cache\<close>: looks the table up in \<^verbatim>\<open>sqlite_master\<close>, creates it if it is
  not there, and says whether it was created.
\<close>

definition create_cache :: "connection \<Rightarrow> connection \<times> bool" where
  "create_cache connection =
     (let existed_before = (case connection of None \<Rightarrow> None | Some rows \<Rightarrow> Some ''state'');
          created = (case connection of None \<Rightarrow> Some Map.empty | Some rows \<Rightarrow> Some rows)
      in (created, existed_before = None))"

text \<open>\<^verbatim>\<open>INSERT OR REPLACE\<close> of the row of \<open>info\<close>.\<close>

definition store_app_info :: "TestFlightApp \<Rightarrow> cog \<Rightarrow> (error + unit) \<times> cog" where
  "store_app_info info self =
     (case db_connection self of
        None \<Rightarrow> (Inl OperationalError, self)
      | Some rows \<Rightarrow>
          (Inr (), self\<lparr>db_connection := Some (rows(id' info \<mapsto> is_full info))\<rparr>))"

definition was_full :: "cog \<Rightarrow> string \<Rightarrow> error + bool option" where
  "was_full self app_id =
     (case db_connection self of
        None \<Rightarrow> Inl OperationalError
      | Some rows \<Rightarrow> Inr (rows app_id))"

text \<open>
  \<^verbatim>\<open>__init__\<close>, lines 30 and 31: the connection and the flag. The timer it then starts
  (lines 32 to 42, with the debug line that reports the interval) is not part of the
  model, so the cog starts with nothing sent and nothing logged.
\<close>

definition init :: "connection \<Rightarrow> settings \<Rightarrow> cog" where
  "init connection cfg =
     (case create_cache connection of
        (created, fresh) \<Rightarrow>
          \<lparr>db_connection = created, fresh_start = fresh, settings = cfg,
           sent = [], logger = []\<rparr>)"

subsection \<open>Sending\<close>

text \<open>\<^verbatim>\<open>await channel.send(...)\<close>: the message is delivered, or the call raises.\<close>

definition send :: "env \<Rightarrow> int \<Rightarrow> message \<Rightarrow> cog \<Rightarrow> (error + unit) \<times> cog" where
  "send env channel m self =
     (case channel_send env channel m of
        Some e \<Rightarrow> (Inl e, self)
      | None \<Rightarrow> (Inr (), self\<lparr>sent := sent self @ [(channel, m)]\<rparr>))"

text \<open>\<^verbatim>\<open>self.bot.get_channel(id) or await self.bot.fetch_channel(id)\<close>.\<close>

definition resolve_channel :: "env \<Rightarrow> int \<Rightarrow> error + int option" where
  "resolve_channel env channel_id =
     (case get_channel env channel_id of
        Some channel \<Rightarrow> Inr (Some channel)
      | None \<Rightarrow> fetch_channel env channel_id)"

text \<open>The message of \<^verbatim>\<open>send_info\<close>; an empty \<^verbatim>\<open>content\<close> becomes \<^verbatim>\<open>None\<close>.\<close>

definition info_message :: "settings \<Rightarrow> TestFlightApp \<Rightarrow> message" where
  "info_message cfg app_info =
     (let text_setting = (if is_full app_info then filled_message cfg else unfilled_message cfg)
      in \<lparr>content = (if text_setting = [] then None else Some text_setting),
          embed = Some
            \<lparr>title = name app_info,
             url = ''https://testflight.apple.com/join/'' @ id' app_info,
             description = ''TestFlight app is now **''
                @ (if is_full app_info then ''full'' else ''not full'') @ ''**'',
             color = (if is_full app_info then Red else Green),
             thumbnail = icon_url app_info\<rparr>\<rparr>)"

definition plain :: "string \<Rightarrow> message" where
  "plain s = \<lparr>content = Some s, embed = None\<rparr>"

definition send_info :: "env \<Rightarrow> TestFlightApp \<Rightarrow> cog \<Rightarrow> (error + unit) \<times> cog" where
  "send_info env app_info self =
     (case resolve_channel env (notification_channel_id (settings self)) of
        Inl e \<Rightarrow> (Inl e, self)
      | Inr None \<Rightarrow>
          (Inr (), self\<lparr>logger := logger self @ [(ERROR, ''Notification channel not found'')]\<rparr>)
      | Inr (Some channel) \<Rightarrow> send env channel (info_message (settings self) app_info) self)"

definition send_error :: "env \<Rightarrow> string \<Rightarrow> cog \<Rightarrow> (error + unit) \<times> cog" where
  "send_error env app_id self =
     (case resolve_channel env (notification_channel_id (settings self)) of
        Inl e \<Rightarrow> (Inl e, self)
      | Inr None \<Rightarrow>
          (Inr (), self\<lparr>logger := logger self @ [(ERROR, ''Notification channel not found'')]\<rparr>)
      | Inr (Some channel) \<Rightarrow>
          send env channel (plain (''Failed to fetch app info for app `'' @ app_id @ ''`'')) self)"

subsection \<open>The polling cycle\<close>

text \<open>
  The body of the \<^verbatim>\<open>for\<close> of \<^verbatim>\<open>loop_callback\<close>, lines 67 to 74, for one
  \<open>app_id\<close>. \<^verbatim>\<open>and\<close> does not call \<^verbatim>\<open>was_full\<close> when \<^verbatim>\<open>fresh_start\<close> is set;
  a status \<^verbatim>\<open>True\<close> or \<^verbatim>\<open>False\<close> is never equal to \<^verbatim>\<open>None\<close>.
\<close>

definition loop_body :: "env \<Rightarrow> string \<Rightarrow> cog \<Rightarrow> (error + unit) \<times> cog" where
  "loop_body env app_id self =
     (case fetch_app_info env app_id of
        Inl e \<Rightarrow> (Inl e, self)
      | Inr None \<Rightarrow>
          if send_errors (settings self) then send_error env app_id self
          else (Inr (), self)
      | Inr (Some app_info) \<Rightarrow>
          if fresh_start self then store_app_info app_info self
          else (case was_full self app_id of
                  Inl e \<Rightarrow> (Inl e, self)
                | Inr old \<Rightarrow>
                    if Some (is_full app_info) \<noteq> old
                    then (case send_info env app_info self of
                            (Inl e, self1) \<Rightarrow> (Inl e, self1)
                          | (Inr u, self1) \<Rightarrow> store_app_info app_info self1)
                    else store_app_info app_info self))"

text \<open>The \<^verbatim>\<open>for\<close>: an exception leaves the loop and the method.\<close>

fun loop_items :: "env \<Rightarrow> string list \<Rightarrow> cog \<Rightarrow> (error + unit) \<times> cog" where
  "loop_items env [] self = (Inr (), self)"
| "loop_items env (app_id # rest) self =
     (case loop_body env app_id self of
        (Inl e, self1) \<Rightarrow> (Inl e, self1)
      | (Inr u, self1) \<Rightarrow> loop_items env rest self1)"

definition loop_callback :: "env \<Rightarrow> cog \<Rightarrow> (error + unit) \<times> cog" where
  "loop_callback env self =
     loop_items env (watched_apps (settings self))
       (self\<lparr>logger := logger self @ [(DEBUG, ''Checking TestFlight app statuses'')]\<rparr>)"

subsection \<open>The commands\<close>

text \<open>
  Lines 159 to 164 (and again 180 to 185): the id the argument names. \<open>Inr None\<close>
  stands for the reply \<^verbatim>\<open>Invalid URL\<close>. \<^verbatim>\<open>or\<close> reads \<^verbatim>\<open>parts[2]\<close> and
  \<^verbatim>\<open>parts[3]\<close> only when there are four parts.
\<close>

definition url_app_id :: "string \<Rightarrow> error + string option" where
  "url_app_id app_id =
     (if startswith app_id ''https://'' \<or> startswith app_id ''http://'' then
        (let parts = str_split app_id ''/'' 4 in
         if length parts < 4 \<or> parts ! 2 \<noteq> ''testflight.apple.com'' \<or> parts ! 3 \<noteq> ''join''
         then Inr None
         else (case item parts 4 of Inl e \<Rightarrow> Inl e | Inr v \<Rightarrow> Inr (Some v)))
      else Inr (Some app_id))"

text \<open>\<^verbatim>\<open>add_testflight\<close>; \<open>ctx\<close> is the channel the command came from.\<close>

definition add_testflight :: "env \<Rightarrow> int \<Rightarrow> string \<Rightarrow> cog \<Rightarrow> (error + unit) \<times> cog" where
  "add_testflight env ctx arg self =
     (case url_app_id arg of
        Inl e \<Rightarrow> (Inl e, self)
      | Inr None \<Rightarrow> send env ctx (plain ''Invalid URL'') self
      | Inr (Some app_id) \<Rightarrow>
          if app_id \<in> set (watched_apps (settings self))
          then send env ctx (plain ''App already being watched'') self
          else (case fetch_app_info env app_id of
                  Inl e \<Rightarrow> (Inl e, self)
                | Inr None \<Rightarrow> send env ctx (plain ''App not found'') self
                | Inr (Some info) \<Rightarrow>
                    (case store_app_info info self of
                       (Inl e, self1) \<Rightarrow> (Inl e, self1)
                     | (Inr u, self1) \<Rightarrow>
                         send env ctx (plain (''Watching '' @ name info))
                           (self1\<lparr>settings := (settings self1)
                              \<lparr>watched_apps := watched_apps (settings self1) @ [app_id]\<rparr>\<rparr>))))"

subsection \<open>Concrete inputs\<close>

text \<open>
  A join page as TestFlight serves it, with the given status line; a session that
  answers every request with it; a world whose channels are not cached, are found by
  \<^verbatim>\<open>fetch_channel\<close> and accept every message.
\<close>

definition page_with :: "string \<Rightarrow> node list" where
  "page_with status_line =
     [Tag ''html'' []
        [Tag ''head'' []
           [Tag ''title'' [] [NavigableString ''Join the Foo - TestFlight - Apple'']],
         Tag ''body'' []
           [Tag ''div'' [(''id'', ''status'')]
              [Tag ''div'' [(''class'', ''app-icon ios''),
                            (''style'', ''background-image: url(https://cdn/foo.png);'')] [],
               Tag ''span'' [] [NavigableString status_line]]]]]"

definition world :: "(string \<Rightarrow> error + response) \<Rightarrow> env" where
  "world get =
     \<lparr>session = Some get, get_channel = (\<lambda>c. None),
      fetch_channel = (\<lambda>c. Inr (Some c)), channel_send = (\<lambda>c m. None)\<rparr>"

definition serve :: "int \<Rightarrow> string \<Rightarrow> string \<Rightarrow> error + response" where
  "serve code status_line u = Inr \<lparr>status = code, soup = page_with status_line\<rparr>"

definition some_settings :: settings where
  "some_settings =
     \<lparr>watched_apps = [''abc''], send_errors = True, notification_channel_id = 7,
      filled_message = ''It filled up'', unfilled_message = []\<rparr>"

definition foo_app :: "bool \<Rightarrow> TestFlightApp" where
  "foo_app full = \<lparr>is_full = full, id' = ''abc'', name = ''Foo'', icon_url = ''https://cdn/foo.png''\<rparr>"

text \<open>The same page without the status \<^verbatim>\<open>div\<close>.\<close>

definition page_without_status :: "node list" where
  "page_without_status =
     [Tag ''html'' []
        [Tag ''head'' []
           [Tag ''title'' [] [NavigableString ''Join the Foo - TestFlight - Apple'']],
         Tag ''body'' [] [Tag ''p'' [] [NavigableString ''Nothing here'']]]]"

text \<open>A session that cannot reach the page of \<^verbatim>\<open>abc\<close> and serves every other one.\<close>

definition flaky :: "string \<Rightarrow> error + response" where
  "flaky u =
     (if u = ''https://testflight.apple.com/join/abc'' then Inl ClientError
      else serve 200 ''This beta is full.'' u)"

section \<open>Properties\<close>

subsection \<open>Helper facts\<close>

text \<open>
  What the concrete worlds serve.
\<close>

lemma fetch_foo_full:
  "fetch_app_info (world (serve 200 ''This beta is full.'')) ''abc'' = Inr (Some (foo_app True))"
  by code_simp


lemma resolve_world: "resolve_channel (world get) c = Inr (Some c)"
  by (simp add: resolve_channel_def world_def)

text \<open>
  \<^verbatim>\<open>find\<close> yields tags only.
\<close>

lemma find_in_is_tag: "find_in nm f ns = Some t \<Longrightarrow> \<exists>n attrs cs. t = Tag n attrs cs"
  by (induction nm f ns rule: find_in.induct) (auto split: if_splits option.splits)

text \<open>
  The record a fetch returns carries the id that was asked for.
\<close>

lemma parse_app_info_id: "parse_app_info page a = Inr info \<Longrightarrow> id' info = a"
  by (auto simp: parse_app_info_def ebind_def Let_def split: sum.splits)

lemma fetch_app_info_id: "fetch_app_info env a = Inr (Some info) \<Longrightarrow> id' info = a"
  by (auto simp: fetch_app_info_def dest: parse_app_info_id split: option.splits sum.splits if_splits)

subsection \<open>The table and the flag\<close>

text \<open>
  C8. \<^verbatim>\<open>create_cache\<close> creates the table \<^verbatim>\<open>state\<close> when the database has none
  and then returns \<^verbatim>\<open>True\<close>; on a database that has the table it returns \<^verbatim>\<open>False\<close>
  and leaves the rows as they are. So it returns \<^verbatim>\<open>True\<close> exactly when the table
  did not exist before, and \<^verbatim>\<open>__init__\<close> takes \<^verbatim>\<open>fresh_start\<close> from it.
\<close>

theorem create_cache_fresh:
  "create_cache None = (Some Map.empty, True)
   \<and> create_cache (Some rows) = (Some rows, False)
   \<and> snd (create_cache connection) = (connection = None)
   \<and> fresh_start (init connection cfg) = snd (create_cache connection)
   \<and> db_connection (init connection cfg) = fst (create_cache connection)"
  by (simp add: create_cache_def init_def split: option.splits)

text \<open>
  No statement of \<^verbatim>\<open>loop_callback\<close>, nor of what it calls, assigns \<^verbatim>\<open>fresh_start\<close>:
  a cycle ends with the flag it started with, whether it returns or raises.
\<close>

lemma send_fresh_start: "fresh_start (snd (send env c m self)) = fresh_start self"
  by (simp add: send_def split: option.splits)

lemma send_info_fresh_start: "fresh_start (snd (send_info env info self)) = fresh_start self"
  by (simp add: send_info_def send_fresh_start split: sum.splits option.splits)

lemma send_error_fresh_start: "fresh_start (snd (send_error env a self)) = fresh_start self"
  by (simp add: send_error_def send_fresh_start split: sum.splits option.splits)

lemma store_app_info_fresh_start:
  "fresh_start (snd (store_app_info info self)) = fresh_start self"
  by (simp add: store_app_info_def split: option.splits)

lemma loop_body_fresh_start: "fresh_start (snd (loop_body env a self)) = fresh_start self"
proof (cases "fetch_app_info env a")
  case (Inl e)
  then show ?thesis by (simp add: loop_body_def)
next
  case (Inr r)
  show ?thesis
  proof (cases r)
    case None
    with Inr show ?thesis by (simp add: loop_body_def send_error_fresh_start)
  next
    case (Some info)
    have "fresh_start (snd (case send_info env info self of
              (Inl e, self1) \<Rightarrow> (Inl e, self1)
            | (Inr u, self1) \<Rightarrow> store_app_info info self1)) = fresh_start self"
      using send_info_fresh_start [of env info self]
      by (cases "send_info env info self")
         (auto simp: store_app_info_fresh_start split: sum.splits)
    with Inr Some show ?thesis
      by (simp add: loop_body_def store_app_info_fresh_start split: sum.splits)
  qed
qed

lemma loop_items_fresh_start:
  "fresh_start (snd (loop_items env apps self)) = fresh_start self"
proof (induction apps arbitrary: self)
  case Nil
  show ?case by simp
next
  case (Cons a apps)
  show ?case
  proof (cases "loop_body env a self")
    case (Pair r self1)
    with loop_body_fresh_start [of env a self] have k: "fresh_start self1 = fresh_start self"
      by simp
    show ?thesis
    proof (cases r)
      case (Inl e)
      with Pair k show ?thesis by simp
    next
      case (Inr u)
      with Pair k Cons.IH [of self1] show ?thesis by simp
    qed
  qed
qed

lemma loop_callback_fresh_start:
  "fresh_start (snd (loop_callback env self)) = fresh_start self"
  by (simp add: loop_callback_def loop_items_fresh_start)

text \<open>
  C1 says that once the first cycle has run, no later cycle runs with the flag set.
  The code does not do that. Started on a database without the table, with \<^verbatim>\<open>abc\<close>
  watched: the flag is set; after the first cycle, which stores the status full, it
  is still set; so the second cycle, which fetches the status open, sends nothing
  although the stored status differs from the fetched one.
\<close>

theorem fresh_start_never_cleared:
  "fresh_start (init None some_settings)
   \<and> fresh_start (snd (loop_callback (world (serve 200 ''This beta is full.''))
                        (init None some_settings)))
   \<and> was_full (snd (loop_callback (world (serve 200 ''This beta is full.''))
                        (init None some_settings))) ''abc'' = Inr (Some True)
   \<and> fetch_app_info (world (serve 200 ''Testing is open'')) ''abc'' = Inr (Some (foo_app False))
   \<and> sent (snd (loop_callback (world (serve 200 ''Testing is open''))
                 (snd (loop_callback (world (serve 200 ''This beta is full.''))
                        (init None some_settings))))) = []"
  by code_simp

subsection \<open>One item of a cycle\<close>

text \<open>
  C2 says that a change is notified only when the table holds an old status for the
  id. Here the table exists and has no row for \<^verbatim>\<open>abc\<close>, the flag is not set, the
  fetch succeeds, and the message is sent: \<^verbatim>\<open>was_full\<close> returns \<^verbatim>\<open>None\<close>, which
  differs from every status.
\<close>

theorem notification_without_old_status:
  "fetch_app_info (world (serve 200 ''This beta is full.'')) ''abc'' = Inr (Some (foo_app True))
   \<and> \<not> fresh_start (init (Some Map.empty) some_settings)
   \<and> was_full (init (Some Map.empty) some_settings) ''abc'' = Inr None
   \<and> sent (init (Some Map.empty) some_settings) = []
   \<and> sent (snd (loop_body (world (serve 200 ''This beta is full.'')) ''abc''
                  (init (Some Map.empty) some_settings)))
       = [(7, info_message some_settings (foo_app True))]"
  by code_simp

text \<open>
  C2, as the code has it. For an id whose fetch succeeds, with \<open>old\<close> what
  \<^verbatim>\<open>was_full\<close> returns (\<open>None\<close> when the table has no row for the id): when the flag
  is set or \<open>old\<close> is the fetched status, no message is sent; when the flag is not
  set and \<open>old\<close> is anything else, an absent row included, the change message goes to
  the notification channel (it is appended to \<open>sent\<close> when the channel is found and
  accepts it).
\<close>

theorem change_notification_rule:
  assumes "fetch_app_info env app_id = Inr (Some app_info)"
      and "was_full self app_id = Inr old"
  shows "(fresh_start self \<or> old = Some (is_full app_info)
            \<longrightarrow> sent (snd (loop_body env app_id self)) = sent self)
       \<and> (\<not> fresh_start self \<and> old \<noteq> Some (is_full app_info)
            \<longrightarrow> (\<forall>channel.
                   resolve_channel env (notification_channel_id (settings self)) = Inr (Some channel)
                   \<and> channel_send env channel (info_message (settings self) app_info) = None
                   \<longrightarrow> sent (snd (loop_body env app_id self))
                         = sent self @ [(channel, info_message (settings self) app_info)]))"
  using assms
  by (auto simp: loop_body_def was_full_def store_app_info_def send_info_def send_def
           split: option.splits)

text \<open>
  An instance: the table says not full, the page says full, the flag is not set.
\<close>

theorem change_notification_rule_witness:
  "fetch_app_info (world (serve 200 ''This beta is full.'')) ''abc'' = Inr (Some (foo_app True))
   \<and> was_full (init (Some [''abc'' \<mapsto> False]) some_settings) ''abc'' = Inr (Some False)
   \<and> \<not> fresh_start (init (Some [''abc'' \<mapsto> False]) some_settings)
   \<and> Some False \<noteq> Some (is_full (foo_app True))
   \<and> sent (snd (loop_body (world (serve 200 ''This beta is full.'')) ''abc''
                  (init (Some [''abc'' \<mapsto> False]) some_settings)))
       = sent (init (Some [''abc'' \<mapsto> False]) some_settings)
           @ [(7, info_message some_settings (foo_app True))]"
proof -
  let ?self = "init (Some [''abc'' \<mapsto> False]) some_settings"
  let ?env = "world (serve 200 ''This beta is full.'')"
  have w: "was_full ?self ''abc'' = Inr (Some False)"
    by (simp add: was_full_def init_def create_cache_def)
  have n: "\<not> fresh_start ?self" by (simp add: init_def create_cache_def)
  have d: "Some False \<noteq> Some (is_full (foo_app True))" by (simp add: foo_app_def)
  have c: "settings ?self = some_settings"
    by (simp add: init_def create_cache_def)
  have c7: "notification_channel_id (settings ?self) = 7"
    by (simp add: c) (simp add: some_settings_def)
  have r: "resolve_channel ?env (notification_channel_id (settings ?self)) = Inr (Some 7)"
    by (simp only: c7 resolve_world)
  have k: "channel_send ?env 7 (info_message (settings ?self) (foo_app True)) = None"
    by (simp add: world_def)
  from change_notification_rule [OF fetch_foo_full w] n d r k
  have "sent (snd (loop_body ?env ''abc'' ?self))
          = sent ?self @ [(7, info_message (settings ?self) (foo_app True))]"
    by blast
  then show ?thesis using fetch_foo_full w n d by (simp add: c)
qed



subsection \<open>Fetches that fail\<close>

text \<open>
  C6 says that a transport error gives a failed fetch like a bad status does, and
  that the cycle goes on with the next id. Here the session cannot reach the page of
  \<^verbatim>\<open>abc\<close> and would serve the page of \<^verbatim>\<open>xyz\<close>: \<^verbatim>\<open>fetch_app_info\<close> raises
  instead of returning \<^verbatim>\<open>None\<close>, the cycle ends with that exception, no error
  message is sent although \<^verbatim>\<open>send_errors\<close> is on, and \<^verbatim>\<open>xyz\<close> is never fetched.
\<close>

theorem transport_error_ends_cycle:
  "fetch_app_info (world flaky) ''abc'' = Inl ClientError
   \<and> fetch_app_info (world flaky) ''xyz'' = Inr (Some ((foo_app True)\<lparr>id' := ''xyz''\<rparr>))
   \<and> send_errors (some_settings\<lparr>watched_apps := [''abc'', ''xyz'']\<rparr>)
   \<and> fst (loop_callback (world flaky)
            (init (Some Map.empty) (some_settings\<lparr>watched_apps := [''abc'', ''xyz'']\<rparr>)))
       = Inl ClientError
   \<and> sent (snd (loop_callback (world flaky)
            (init (Some Map.empty) (some_settings\<lparr>watched_apps := [''abc'', ''xyz'']\<rparr>)))) = []
   \<and> was_full (snd (loop_callback (world flaky)
            (init (Some Map.empty) (some_settings\<lparr>watched_apps := [''abc'', ''xyz'']\<rparr>)))) ''xyz''
       = Inr None"
  by code_simp

text \<open>
  C6, as the code has it. When the session answers the request for an id with a
  status other than 200, \<^verbatim>\<open>fetch_app_info\<close> returns \<^verbatim>\<open>None\<close> and the item leaves
  the table as it is. With \<^verbatim>\<open>send_errors\<close> off nothing else happens; with it on,
  the error message is sent to the notification channel. Whenever the item ends
  without an exception, the cycle goes on with the rest of the list.
\<close>

theorem failed_status_skips_store:
  assumes "session env = Some get"
      and "get (''https://testflight.apple.com/join/'' @ app_id) = Inr resp"
      and "status resp \<noteq> 200"
  shows "fetch_app_info env app_id = Inr None
       \<and> db_connection (snd (loop_body env app_id self)) = db_connection self
       \<and> (\<not> send_errors (settings self) \<longrightarrow> loop_body env app_id self = (Inr (), self))
       \<and> (send_errors (settings self) \<longrightarrow>
            (\<forall>channel.
               resolve_channel env (notification_channel_id (settings self)) = Inr (Some channel)
               \<and> channel_send env channel
                    (plain (''Failed to fetch app info for app `'' @ app_id @ ''`'')) = None
               \<longrightarrow> fst (loop_body env app_id self) = Inr ()
                  \<and> sent (snd (loop_body env app_id self))
                      = sent self
                        @ [(channel, plain (''Failed to fetch app info for app `'' @ app_id @ ''`''))]))
       \<and> (fst (loop_body env app_id self) = Inr () \<longrightarrow>
            loop_items env (app_id # rest) self
              = loop_items env rest (snd (loop_body env app_id self)))"
proof -
  have f: "fetch_app_info env app_id = Inr None"
    using assms by (simp add: fetch_app_info_def)
  have b: "loop_body env app_id self =
      (if send_errors (settings self) then send_error env app_id self else (Inr (), self))"
    by (simp add: loop_body_def f)
  have d: "db_connection (snd (send_error env app_id self)) = db_connection self"
    by (simp add: send_error_def send_def split: sum.splits option.splits)
  have l: "fst (loop_body env app_id self) = Inr () \<longrightarrow>
            loop_items env (app_id # rest) self
              = loop_items env rest (snd (loop_body env app_id self))"
    by (cases "loop_body env app_id self") (auto split: sum.splits)
  show ?thesis
    using f d l by (auto simp: b send_error_def send_def)
qed

text \<open>
  An instance: the page answers 404 and \<^verbatim>\<open>send_errors\<close> is on.
\<close>

theorem failed_status_witness:
  "session (world (serve 404 ''Not found'')) = Some (serve 404 ''Not found'')
   \<and> status \<lparr>status = 404, soup = page_with ''Not found''\<rparr> \<noteq> 200
   \<and> fetch_app_info (world (serve 404 ''Not found'')) ''abc'' = Inr None
   \<and> send_errors (settings (init (Some [''abc'' \<mapsto> False]) some_settings))
   \<and> fst (loop_body (world (serve 404 ''Not found'')) ''abc''
            (init (Some [''abc'' \<mapsto> False]) some_settings)) = Inr ()
   \<and> sent (snd (loop_body (world (serve 404 ''Not found'')) ''abc''
            (init (Some [''abc'' \<mapsto> False]) some_settings)))
       = [(7, plain ''Failed to fetch app info for app `abc`'')]
   \<and> db_connection (snd (loop_body (world (serve 404 ''Not found'')) ''abc''
            (init (Some [''abc'' \<mapsto> False]) some_settings)))
       = db_connection (init (Some [''abc'' \<mapsto> False]) some_settings)"
proof -
  let ?self = "init (Some [''abc'' \<mapsto> False]) some_settings"
  let ?env = "world (serve 404 ''Not found'')"
  have s: "session ?env = Some (serve 404 ''Not found'')" by (simp add: world_def)
  have g: "serve 404 ''Not found'' (''https://testflight.apple.com/join/'' @ ''abc'')
             = Inr \<lparr>status = 404, soup = page_with ''Not found''\<rparr>"
    by (simp add: serve_def)
  have n: "status \<lparr>status = 404, soup = page_with ''Not found''\<rparr> \<noteq> 200" by simp
  have c: "settings ?self = some_settings" "sent ?self = []"
    by (simp_all add: init_def create_cache_def)
  have e: "send_errors (settings ?self)"
    by (simp add: c) (simp add: some_settings_def)
  have c7: "notification_channel_id (settings ?self) = 7"
    by (simp add: c) (simp add: some_settings_def)
  have r: "resolve_channel ?env (notification_channel_id (settings ?self)) = Inr (Some 7)"
    by (simp only: c7 resolve_world)
  have k: "channel_send ?env 7 (plain (''Failed to fetch app info for app `'' @ ''abc'' @ ''`'')) = None"
    by (simp add: world_def)
  note t = failed_status_skips_store [where self = ?self, OF s g n]
  from t have a: "fetch_app_info ?env ''abc'' = Inr None" by blast
  from t have b: "db_connection (snd (loop_body ?env ''abc'' ?self)) = db_connection ?self"
    by blast
  from t e r k have
    "fst (loop_body ?env ''abc'' ?self) = Inr ()
     \<and> sent (snd (loop_body ?env ''abc'' ?self))
         = sent ?self @ [(7, plain (''Failed to fetch app info for app `'' @ ''abc'' @ ''`''))]"
    by blast
  then show ?thesis using s n a b e by (simp add: c)
qed

text \<open>
  How \<^verbatim>\<open>split\<close> and the lookups behave inside \<open>parse_app_info\<close>.
\<close>

lemma partition_at_contains: "(partition_at s sep = None) = (\<not> contains s sep)"
  by (induction s) (auto split: option.splits)

lemma item_split_once:
  "item (str_split s sep (Suc 0)) (Suc 0) =
     (if contains s sep then Inr (snd (the (partition_at s sep))) else Inl IndexError)"
  using partition_at_contains [of s sep]
  by (auto simp: item_def split: option.splits)

lemma find_tag_Some: "\<exists>r. find_tag (Some t) nm f = Inr r"
  by (cases t) (simp_all add: find_tag_def)

lemma get_text_Some: "\<exists>s. get_text (Some t) = Inr s"
  by (cases t) (simp_all add: get_text_def)

lemma getitem_error: "getitem x key = Inl e \<Longrightarrow> e = TypeError \<or> e = KeyError"
  by (auto simp: getitem_def split: option.splits node.splits)

lemma str_split_not_Nil: "str_split s sep n \<noteq> []"
  by (cases n) (auto split: option.splits)

lemma item_split_all: "item (str_split_all s sep) 0 = Inr (hd (str_split_all s sep))"
  using str_split_not_Nil [of s sep "length s"]
  by (simp add: item_def str_split_all_def hd_conv_nth)

text \<open>
  A page with everything \<open>parse_app_info\<close> reads gives a record; a page that lacks
  one of the elements makes it raise.
\<close>

lemma parse_app_info_complete:
  assumes "expected_elements page"
  shows "\<exists>info. parse_app_info page a = Inr info"
proof -
  from assms obtain status_div head where
    sd: "soup_find page ''div'' (IdIs ''status'') = Some status_div" and
    hd: "soup_find page ''head'' AnyAttrs = Some head"
    by (auto simp: expected_elements_def split: option.splits)
  from assms sd obtain status_text icon_element where
    sp: "find_tag (Some status_div) ''span'' AnyAttrs = Inr (Some status_text)" and
    ic: "find_tag (Some status_div) ''div'' (ClassIn [''app-icon'', ''ios'']) = Inr (Some icon_element)"
    by (auto simp: expected_elements_def split: option.splits sum.splits)
  from assms sd ic obtain style where
    st: "getitem (Some icon_element) ''style'' = Inr style" and
    ur: "contains style ''url(''"
    by (auto simp: expected_elements_def split: option.splits sum.splits)
  from assms hd obtain title_tag where
    ti: "find_tag (Some head) ''title'' AnyAttrs = Inr (Some title_tag)"
    by (auto simp: expected_elements_def split: option.splits sum.splits)
  from sp obtain status_string where tx: "get_text (Some status_text) = Inr status_string"
    by (cases status_text) (auto simp: get_text_def)
  obtain page_title where tt: "get_text (Some title_tag) = Inr page_title"
    by (cases title_tag) (auto simp: get_text_def)
  obtain after_url where au: "item (str_split style ''url('' (Suc 0)) (Suc 0) = Inr after_url"
    using ur by (simp add: item_split_once del: str_split.simps)
  note iu = item_split_all [of after_url "'')''"]
  show ?thesis
    by (simp add: parse_app_info_def ebind_def sd hd sp ic st tx ti tt au iu del: str_split.simps)
qed

lemma parse_app_info_incomplete:
  assumes "\<not> expected_elements page"
  shows "\<exists>e \<in> {AttributeError, TypeError, KeyError, IndexError}. parse_app_info page a = Inl e"
proof (cases "soup_find page ''div'' (IdIs ''status'')")
  case None
  then have "parse_app_info page a = Inl AttributeError"
    by (simp add: parse_app_info_def ebind_def find_tag_def)
  then show ?thesis by simp
next
  case sd: (Some status_div)
  obtain sp where sp: "find_tag (Some status_div) ''span'' AnyAttrs = Inr sp"
    using find_tag_Some by blast
  obtain ic where ic: "find_tag (Some status_div) ''div'' (ClassIn [''app-icon'', ''ios'']) = Inr ic"
    using find_tag_Some by blast
  show ?thesis
  proof (cases sp)
    case None
    with sd sp have "parse_app_info page a = Inl AttributeError"
      by (simp add: parse_app_info_def ebind_def get_text_def)
    then show ?thesis by simp
  next
    case (Some status_text)
    obtain status_string where tx: "get_text (Some status_text) = Inr status_string"
      using get_text_Some by blast
    note start = sd sp Some tx ic
    show ?thesis
    proof (cases ic)
      case None
      with start have "parse_app_info page a = Inl TypeError"
        by (simp add: parse_app_info_def ebind_def getitem_def)
      then show ?thesis by simp
    next
      case icon: (Some icon_element)
      show ?thesis
      proof (cases "getitem (Some icon_element) ''style''")
        case (Inl e)
        with start icon have "parse_app_info page a = Inl e"
          by (simp add: parse_app_info_def ebind_def)
        with getitem_error [OF Inl] show ?thesis by auto
      next
        case style: (Inr style)
        show ?thesis
        proof (cases "contains style ''url(''")
          case False
          with start icon style have "parse_app_info page a = Inl IndexError"
            by (simp add: parse_app_info_def ebind_def item_split_once del: str_split.simps)
          then show ?thesis by simp
        next
          case True
          note middle = start icon style True
          show ?thesis
          proof (cases "soup_find page ''head'' AnyAttrs")
            case None
            with middle have "parse_app_info page a = Inl AttributeError"
              by (simp add: parse_app_info_def ebind_def item_split_once item_split_all
                    find_tag_def del: str_split.simps)
            then show ?thesis by simp
          next
            case hd: (Some head)
            obtain ti where ti: "find_tag (Some head) ''title'' AnyAttrs = Inr ti"
              using find_tag_Some by blast
            show ?thesis
            proof (cases ti)
              case None
              with middle hd ti have "parse_app_info page a = Inl AttributeError"
                by (simp add: parse_app_info_def ebind_def item_split_once item_split_all
                      get_text_def del: str_split.simps)
              then show ?thesis by simp
            next
              case (Some title_tag)
              with middle hd ti have "expected_elements page"
                by (simp add: expected_elements_def)
              with assms show ?thesis by simp
            qed
          qed
        qed
      qed
    qed
  qed
qed

text \<open>
  C3 says that a page lacking an expected element gives a failed fetch, not an
  exception. Here the page is served with status 200 and has no status \<^verbatim>\<open>div\<close>:
  \<^verbatim>\<open>fetch_app_info\<close> raises \<^verbatim>\<open>AttributeError\<close>, and so does the whole cycle.
\<close>

theorem missing_status_div_raises:
  "\<not> expected_elements page_without_status
   \<and> fetch_app_info (world (\<lambda>u. Inr \<lparr>status = 200, soup = page_without_status\<rparr>)) ''abc''
       = Inl AttributeError
   \<and> fst (loop_callback (world (\<lambda>u. Inr \<lparr>status = 200, soup = page_without_status\<rparr>))
            (init (Some Map.empty) (some_settings\<lparr>watched_apps := [''abc'', ''xyz'']\<rparr>)))
       = Inl AttributeError"
  by code_simp

text \<open>
  C3, as the code has it. \<^verbatim>\<open>fetch_app_info\<close> returns \<^verbatim>\<open>None\<close> exactly when the
  status of the response is not 200. For a response with status 200 whose page lacks
  an expected element or attribute it raises \<^verbatim>\<open>AttributeError\<close>, \<^verbatim>\<open>TypeError\<close>,
  \<^verbatim>\<open>KeyError\<close> or \<^verbatim>\<open>IndexError\<close>, and the exception leaves the cycle at that
  item; for a page that has them all it returns a record.
\<close>

theorem missing_element_raises:
  assumes "session env = Some get"
      and "get (''https://testflight.apple.com/join/'' @ app_id) = Inr resp"
  shows "(fetch_app_info env app_id = Inr None) = (status resp \<noteq> 200)
       \<and> (status resp = 200 \<and> \<not> expected_elements (soup resp) \<longrightarrow>
            (\<exists>e \<in> {AttributeError, TypeError, KeyError, IndexError}.
               fetch_app_info env app_id = Inl e
               \<and> (\<forall>self rest. loop_items env (app_id # rest) self = (Inl e, self))))
       \<and> (status resp = 200 \<and> expected_elements (soup resp) \<longrightarrow>
            (\<exists>info. fetch_app_info env app_id = Inr (Some info)))"
proof (cases "status resp = 200")
  case False
  with assms show ?thesis by (simp add: fetch_app_info_def)
next
  case ok: True
  show ?thesis
  proof (cases "expected_elements (soup resp)")
    case True
    then obtain info where "parse_app_info (soup resp) app_id = Inr info"
      using parse_app_info_complete by blast
    with assms ok True show ?thesis by (simp add: fetch_app_info_def)
  next
    case False
    then obtain e where e: "e \<in> {AttributeError, TypeError, KeyError, IndexError}"
        and p: "parse_app_info (soup resp) app_id = Inl e"
      using parse_app_info_incomplete by blast
    from assms ok p have f: "fetch_app_info env app_id = Inl e"
      by (simp add: fetch_app_info_def)
    then have "\<forall>self rest. loop_items env (app_id # rest) self = (Inl e, self)"
      by (simp add: loop_body_def)
    with e f ok False show ?thesis by auto
  qed
qed

text \<open>
  An instance: the page without the status \<^verbatim>\<open>div\<close>.
\<close>

theorem missing_element_raises_witness:
  "session (world (\<lambda>u. Inr \<lparr>status = 200, soup = page_without_status\<rparr>))
     = Some (\<lambda>u. Inr \<lparr>status = 200, soup = page_without_status\<rparr>)
   \<and> status \<lparr>status = 200, soup = page_without_status\<rparr> = 200
   \<and> \<not> expected_elements (soup \<lparr>status = 200, soup = page_without_status\<rparr>)
   \<and> fetch_app_info (world (\<lambda>u. Inr \<lparr>status = 200, soup = page_without_status\<rparr>)) ''abc''
        \<noteq> Inr None
   \<and> (\<exists>e. fetch_app_info (world (\<lambda>u. Inr \<lparr>status = 200, soup = page_without_status\<rparr>)) ''abc''
          = Inl e)"
proof -
  let ?get = "\<lambda>u::string. (Inr \<lparr>status = 200, soup = page_without_status\<rparr> :: error + response)"
  have s: "session (world ?get) = Some ?get" by (simp add: world_def)
  have g: "?get (''https://testflight.apple.com/join/'' @ ''abc'')
             = Inr \<lparr>status = 200, soup = page_without_status\<rparr>" by simp
  have n: "\<not> expected_elements (soup \<lparr>status = 200, soup = page_without_status\<rparr>)"
    by code_simp
  note t = missing_element_raises [where app_id = "''abc''", OF s g]
  from t have a: "fetch_app_info (world ?get) ''abc'' \<noteq> Inr None" by simp
  from t n have "\<exists>e \<in> {AttributeError, TypeError, KeyError, IndexError}.
               fetch_app_info (world ?get) ''abc'' = Inl e
               \<and> (\<forall>self rest. loop_items (world ?get) (''abc'' # rest) self = (Inl e, self))"
    by (simp del: loop_items.simps)
  then have b: "\<exists>e. fetch_app_info (world ?get) ''abc'' = Inl e" by blast
  show ?thesis using s n a b by simp
qed

subsection \<open>Notifications that cannot be delivered\<close>

text \<open>
  C4 says that a notification that cannot be delivered is logged and never raised
  into the cycle. \<^verbatim>\<open>send_info\<close> and \<^verbatim>\<open>send_error\<close> log and return when the channel
  they get is \<^verbatim>\<open>None\<close>, but an unknown channel does not reach that test: it is not
  in the cache and \<^verbatim>\<open>fetch_channel\<close> raises. With \<^verbatim>\<open>abc\<close> and \<^verbatim>\<open>xyz\<close> watched and
  a change of \<^verbatim>\<open>abc\<close> to report, the cycle ends with that exception, the row of
  \<^verbatim>\<open>abc\<close> keeps its old status, \<^verbatim>\<open>xyz\<close> is never processed and no error line is
  logged. The same happens when the channel is found and \<^verbatim>\<open>channel.send\<close> raises.
\<close>

theorem unknown_channel_ends_cycle:
  "get_channel ((world (serve 200 ''This beta is full.''))\<lparr>fetch_channel := \<lambda>c. Inl HTTPException\<rparr>) 7
     = None
   \<and> fst (loop_callback ((world (serve 200 ''This beta is full.''))\<lparr>fetch_channel := \<lambda>c. Inl HTTPException\<rparr>)
         (init (Some [''abc'' \<mapsto> False]) (some_settings\<lparr>watched_apps := [''abc'', ''xyz'']\<rparr>)))
     = Inl HTTPException
   \<and> was_full (snd (loop_callback ((world (serve 200 ''This beta is full.''))\<lparr>fetch_channel := \<lambda>c. Inl HTTPException\<rparr>)
         (init (Some [''abc'' \<mapsto> False]) (some_settings\<lparr>watched_apps := [''abc'', ''xyz'']\<rparr>)))) ''abc''
     = Inr (Some False)
   \<and> was_full (snd (loop_callback ((world (serve 200 ''This beta is full.''))\<lparr>fetch_channel := \<lambda>c. Inl HTTPException\<rparr>)
         (init (Some [''abc'' \<mapsto> False]) (some_settings\<lparr>watched_apps := [''abc'', ''xyz'']\<rparr>)))) ''xyz''
     = Inr None
   \<and> filter (\<lambda>line. fst line = ERROR)
       (logger (snd (loop_callback ((world (serve 200 ''This beta is full.''))\<lparr>fetch_channel := \<lambda>c. Inl HTTPException\<rparr>)
         (init (Some [''abc'' \<mapsto> False]) (some_settings\<lparr>watched_apps := [''abc'', ''xyz'']\<rparr>)))))
     = []
   \<and> fst (loop_callback ((world (serve 200 ''This beta is full.''))\<lparr>channel_send := \<lambda>c m. Some HTTPException\<rparr>)
         (init (Some [''abc'' \<mapsto> False]) (some_settings\<lparr>watched_apps := [''abc'', ''xyz'']\<rparr>)))
     = Inl HTTPException
   \<and> was_full (snd (loop_callback ((world (serve 200 ''This beta is full.''))\<lparr>channel_send := \<lambda>c m. Some HTTPException\<rparr>)
         (init (Some [''abc'' \<mapsto> False]) (some_settings\<lparr>watched_apps := [''abc'', ''xyz'']\<rparr>)))) ''abc''
     = Inr (Some False)"
  by code_simp

subsection \<open>The command \<^verbatim>\<open>add_testflight\<close>\<close>




lemma url_without_id_raises: "url_app_id ''https://testflight.apple.com/join'' = Inl IndexError"
  by code_simp





text \<open>
  C10. When \<^verbatim>\<open>add_testflight\<close> succeeds (the id is not watched yet and the fetch
  yields a record), the fetched status is written to the table first, in a state
  whose watched list is still the old one, and only then is the id appended to the
  list. In the state the command leaves, the id is the last of the list and the
  table holds its status, so the next cycle finds an old status for it.
\<close>

theorem add_stores_before_watching:
  assumes "url_app_id arg = Inr (Some app_id)"
      and "app_id \<notin> set (watched_apps (settings self))"
      and "fetch_app_info env app_id = Inr (Some info)"
      and "db_connection self = Some rows"
  shows "(\<exists>stored. store_app_info info self = (Inr (), stored)
           \<and> was_full stored app_id = Inr (Some (is_full info))
           \<and> watched_apps (settings stored) = watched_apps (settings self)
           \<and> add_testflight env ctx arg self =
               send env ctx (plain (''Watching '' @ name info))
                 (stored\<lparr>settings := (settings stored)
                    \<lparr>watched_apps := watched_apps (settings self) @ [app_id]\<rparr>\<rparr>))
         \<and> watched_apps (settings (snd (add_testflight env ctx arg self)))
             = watched_apps (settings self) @ [app_id]
         \<and> was_full (snd (add_testflight env ctx arg self)) app_id
             = Inr (Some (is_full info))"
proof -
  have i: "id' info = app_id" using assms(3) by (rule fetch_app_info_id)
  let ?stored = "self\<lparr>db_connection := Some (rows(app_id \<mapsto> is_full info))\<rparr>"
  have s: "store_app_info info self = (Inr (), ?stored)"
    using assms(4) i by (simp add: store_app_info_def)
  have a: "add_testflight env ctx arg self =
             send env ctx (plain (''Watching '' @ name info))
               (?stored\<lparr>settings := (settings ?stored)
                  \<lparr>watched_apps := watched_apps (settings self) @ [app_id]\<rparr>\<rparr>)"
    using assms(1,2,3) s by (simp add: add_testflight_def)
  have w: "was_full ?stored app_id = Inr (Some (is_full info))"
    by (simp add: was_full_def)
  have "watched_apps (settings (snd (add_testflight env ctx arg self)))
          = watched_apps (settings self) @ [app_id]"
    unfolding a by (simp add: send_def split: option.splits)
  moreover have "was_full (snd (add_testflight env ctx arg self)) app_id
          = Inr (Some (is_full info))"
    unfolding a by (simp add: send_def was_full_def split: option.splits)
  ultimately show ?thesis using s a w by auto
qed

text \<open>
  An instance: \<^verbatim>\<open>abc\<close> is added on a first start.
\<close>

theorem add_stores_before_watching_witness:
  "url_app_id ''abc'' = Inr (Some ''abc'')
   \<and> ''abc'' \<notin> set (watched_apps (settings (init None (some_settings\<lparr>watched_apps := []\<rparr>))))
   \<and> fetch_app_info (world (serve 200 ''This beta is full.'')) ''abc'' = Inr (Some (foo_app True))
   \<and> db_connection (init None (some_settings\<lparr>watched_apps := []\<rparr>)) = Some Map.empty
   \<and> watched_apps (settings (snd (add_testflight (world (serve 200 ''This beta is full.'')) 3 ''abc''
         (init None (some_settings\<lparr>watched_apps := []\<rparr>))))) = [''abc'']
   \<and> was_full (snd (add_testflight (world (serve 200 ''This beta is full.'')) 3 ''abc''
         (init None (some_settings\<lparr>watched_apps := []\<rparr>)))) ''abc'' = Inr (Some True)"
proof -
  let ?self = "init None (some_settings\<lparr>watched_apps := []\<rparr>)"
  have u: "url_app_id ''abc'' = Inr (Some ''abc'')" by code_simp
  have n: "''abc'' \<notin> set (watched_apps (settings ?self))"
    by (simp add: init_def create_cache_def)
  note f = fetch_foo_full
  have d: "db_connection ?self = Some Map.empty"
    by (simp add: init_def create_cache_def)
  have w: "watched_apps (settings ?self) = []" by (simp add: init_def create_cache_def)
  show ?thesis
    using u n f d add_stores_before_watching [OF u n f d, of 3] by (simp add: w foo_app_def)
qed

end
